theory Spec2Isabelle
  imports Complex_Main "HOL-Library.Word" "HOL-Library.Multiset"
begin

unbundle bit_operations_syntax

section \<open>Python primitives used by the capture tools\<close>

text \<open>
  A Python \<open>bytes\<close> object is a list of 8-bit words, a Python \<open>int\<close> is an
  unbounded \<open>int\<close>.  Every exception the scripts can raise is a value of
  \<open>py_error\<close>; a function that may raise returns \<open>py_error + 'a\<close>.
\<close>

type_synonym byte = "8 word"
type_synonym bytes = "byte list"

datatype py_error = StructError | IndexError | ValueError

text \<open>
  \<open>xs[i:j]\<close>: a negative bound counts from the end, both bounds are clamped to the
  sequence, and the slice never raises.
\<close>

definition slice_bound :: "nat \<Rightarrow> int \<Rightarrow> nat" where
  "slice_bound n k = (if k < 0 then nat (max 0 (int n + k)) else min (nat k) n)"

definition py_slice :: "'a list \<Rightarrow> int \<Rightarrow> int \<Rightarrow> 'a list" where
  "py_slice xs i j =
     take (slice_bound (length xs) j - slice_bound (length xs) i)
       (drop (slice_bound (length xs) i) xs)"

text \<open>\<open>xs[i]\<close> for a non-negative \<open>i\<close>: raises IndexError out of range.\<close>

definition py_index :: "'a list \<Rightarrow> nat \<Rightarrow> py_error + 'a" where
  "py_index xs i = (if i < length xs then Inr (xs ! i) else Inl IndexError)"

text \<open>The value of a byte string read least significant byte first.\<close>

fun le_int :: "bytes \<Rightarrow> int" where
  "le_int [] = 0"
| "le_int (b # bs) = uint b + 256 * le_int bs"

text \<open>The value of a byte string read most significant byte first.\<close>

definition be_int :: "bytes \<Rightarrow> int" where
  "be_int bs = foldl (\<lambda>acc b. 256 * acc + uint b) 0 bs"

text \<open>
  \<open>struct.unpack(fmt, buf)[0]\<close> for the four formats the scripts use.  The call raises
  \<open>struct.error\<close> unless the buffer has exactly the size of the format.
\<close>

definition struct_unpack_le_I :: "bytes \<Rightarrow> py_error + int" where
  "struct_unpack_le_I buf = (if length buf = 4 then Inr (le_int buf) else Inl StructError)"

definition struct_unpack_le_i :: "bytes \<Rightarrow> py_error + int" where
  "struct_unpack_le_i buf =
     (if length buf = 4
      then Inr (if le_int buf < 2 ^ 31 then le_int buf else le_int buf - 2 ^ 32)
      else Inl StructError)"

definition struct_unpack_be_I :: "bytes \<Rightarrow> py_error + int" where
  "struct_unpack_be_I buf = (if length buf = 4 then Inr (be_int buf) else Inl StructError)"

definition struct_unpack_be_H :: "bytes \<Rightarrow> py_error + int" where
  "struct_unpack_be_H buf = (if length buf = 2 then Inr (be_int buf) else Inl StructError)"

text \<open>\<open>int.from_bytes(buf, 'little')\<close> and its \<open>signed=True\<close> form: any length, never raising.\<close>

definition int_from_bytes_little :: "bytes \<Rightarrow> int" where
  "int_from_bytes_little buf = le_int buf"

definition int_from_bytes_little_signed :: "bytes \<Rightarrow> int" where
  "int_from_bytes_little_signed buf =
     (if buf \<noteq> [] \<and> 2 ^ (8 * length buf - 1) \<le> le_int buf
      then le_int buf - 2 ^ (8 * length buf)
      else le_int buf)"

text \<open>
  \<open>bytes.fromhex\<close> of the standard library: ASCII whitespace is skipped before each
  pair of hexadecimal digits, anything else raises ValueError.
\<close>

definition hex_digit :: "char \<Rightarrow> nat option" where
  "hex_digit c =
     (let n = of_char c :: nat in
      if 48 \<le> n \<and> n \<le> 57 then Some (n - 48)
      else if 97 \<le> n \<and> n \<le> 102 then Some (n - 87)
      else if 65 \<le> n \<and> n \<le> 70 then Some (n - 55)
      else None)"

definition is_space :: "char \<Rightarrow> bool" where
  "is_space c = (let n = of_char c :: nat in n = 32 \<or> (9 \<le> n \<and> n \<le> 13))"

fun bytes_fromhex :: "string \<Rightarrow> py_error + bytes" where
  "bytes_fromhex [] = Inr []"
| "bytes_fromhex [c] = (if is_space c then Inr [] else Inl ValueError)"
| "bytes_fromhex (c # d # cs) =
     (if is_space c then bytes_fromhex (d # cs)
      else case hex_digit c of
        None \<Rightarrow> Inl ValueError
      | Some hi \<Rightarrow>
          (case hex_digit d of
             None \<Rightarrow> Inl ValueError
           | Some lo \<Rightarrow>
               (case bytes_fromhex cs of
                  Inl e \<Rightarrow> Inl e
                | Inr rest \<Rightarrow> Inr (of_nat (hi * 16 + lo) # rest))))"

text \<open>\<open>s.replace(c, '')\<close> for a one-character \<open>c\<close>.\<close>

definition str_remove :: "char \<Rightarrow> string \<Rightarrow> string" where
  "str_remove c s = filter (\<lambda>x. x \<noteq> c) s"

text \<open>\<open>needle in haystack\<close> on strings.\<close>

fun starts_with :: "string \<Rightarrow> string \<Rightarrow> bool" where
  "starts_with [] s = True"
| "starts_with (x # xs) [] = False"
| "starts_with (x # xs) (y # ys) = (x = y \<and> starts_with xs ys)"

fun str_contains :: "string \<Rightarrow> string \<Rightarrow> bool" where
  "str_contains needle [] = (needle = [])"
| "str_contains needle (c # cs) = (starts_with needle (c # cs) \<or> str_contains needle cs)"

section \<open>The BCUDP decoders\<close>

definition BCUDP_MAGIC_DISCOVERY :: int where
  "BCUDP_MAGIC_DISCOVERY = 0x3acf872a"

definition BCUDP_MAGIC_DATA :: int where
  "BCUDP_MAGIC_DATA = 0x10cf872a"

definition BCUDP_MAGIC_ACK :: int where
  "BCUDP_MAGIC_ACK = 0x20cf872a"

text \<open>
  The dictionaries the decoders return, by their \<open>'type'\<close> key.  The first field is the
  magic (the scripts store \<open>hex(magic)\<close>), the last one the payload entry, whose
  representation \<open>'p\<close> differs between the scripts (raw bytes, or the hex text).
  Data carries connection_id, packet_id, payload_len; Ack carries connection_id,
  group_id, packet_id.
\<close>

datatype 'p bcudp_packet =
    Discovery int 'p
  | Data int int int int 'p
  | Ack int int int int 'p

text \<open>compare_pcaps.py, \<open>parse_bcudp_packet\<close>: the decoder of the binary capture path.\<close>

definition parse_bcudp_packet_pcaps :: "bytes \<Rightarrow> py_error + bytes bcudp_packet option" where
  "parse_bcudp_packet_pcaps udp_payload =
     (if length udp_payload < 4 then Inr None
      else case struct_unpack_le_I (py_slice udp_payload 0 4) of
        Inl e \<Rightarrow> Inl e
      | Inr magic \<Rightarrow>
          if magic = BCUDP_MAGIC_DISCOVERY then Inr (Some (Discovery magic udp_payload))
          else if magic = BCUDP_MAGIC_DATA then
            (if length udp_payload < 20 then Inr None
             else case struct_unpack_le_i (py_slice udp_payload 4 8) of
               Inl e \<Rightarrow> Inl e
             | Inr connection_id \<Rightarrow>
                 (case struct_unpack_le_I (py_slice udp_payload 12 16) of
                    Inl e \<Rightarrow> Inl e
                  | Inr packet_id \<Rightarrow>
                      (case struct_unpack_le_I (py_slice udp_payload 16 20) of
                         Inl e \<Rightarrow> Inl e
                       | Inr payload_len \<Rightarrow>
                           Inr (Some (Data magic connection_id packet_id payload_len
                                        udp_payload)))))
          else if magic = BCUDP_MAGIC_ACK then
            (if length udp_payload < 28 then Inr None
             else case struct_unpack_le_i (py_slice udp_payload 4 8) of
               Inl e \<Rightarrow> Inl e
             | Inr connection_id \<Rightarrow>
                 (case struct_unpack_le_I (py_slice udp_payload 12 16) of
                    Inl e \<Rightarrow> Inl e
                  | Inr group_id \<Rightarrow>
                      (case struct_unpack_le_I (py_slice udp_payload 16 20) of
                         Inl e \<Rightarrow> Inl e
                       | Inr packet_id \<Rightarrow>
                           Inr (Some (Ack magic connection_id group_id packet_id
                                        udp_payload)))))
          else Inr None)"

text \<open>analyze_json.py and compare_stream_flow.py, \<open>hex_to_bytes\<close>: every exception of the
  conversion is caught and turned into the empty byte string.\<close>

definition hex_to_bytes :: "string \<Rightarrow> bytes" where
  "hex_to_bytes hex_str =
     (case bytes_fromhex (str_remove (CHR '' '') (str_remove (CHR '':'') hex_str)) of
        Inl e \<Rightarrow> []
      | Inr b \<Rightarrow> b)"

text \<open>analyze_json.py, \<open>parse_bcudp_packet\<close>: first the body of its \<open>try\<close> block, then
  the function, which turns every exception into \<open>None\<close>.\<close>

definition parse_bcudp_packet_json_body :: "string \<Rightarrow> py_error + string bcudp_packet option" where
  "parse_bcudp_packet_json_body udp_data_hex =
     (let data = hex_to_bytes udp_data_hex in
      if length data < 4 then Inr None
      else case struct_unpack_be_I (py_slice data 0 4) of
        Inl e \<Rightarrow> Inl e
      | Inr magic \<Rightarrow>
          if magic = BCUDP_MAGIC_DISCOVERY then Inr (Some (Discovery magic udp_data_hex))
          else if magic = BCUDP_MAGIC_DATA then
            (if length data < 20 then Inr None
             else Inr (Some (Data magic
                    (int_from_bytes_little_signed (py_slice data 4 8))
                    (int_from_bytes_little (py_slice data 12 16))
                    (int_from_bytes_little (py_slice data 16 20))
                    (py_slice udp_data_hex 0 80))))
          else if magic = BCUDP_MAGIC_ACK then
            (if length data < 28 then Inr None
             else Inr (Some (Ack magic
                    (int_from_bytes_little_signed (py_slice data 4 8))
                    (int_from_bytes_little (py_slice data 12 16))
                    (int_from_bytes_little (py_slice data 16 20))
                    (py_slice udp_data_hex 0 56))))
          else Inr None)"

definition parse_bcudp_packet_json :: "string \<Rightarrow> string bcudp_packet option" where
  "parse_bcudp_packet_json udp_data_hex =
     (case parse_bcudp_packet_json_body udp_data_hex of
        Inl e \<Rightarrow> None
      | Inr r \<Rightarrow> r)"

text \<open>compare_stream_flow.py, \<open>parse_bcudp_data\<close> and \<open>parse_bcudp_ack\<close>.  The
  dictionaries hold the type and three fields: connection_id, packet_id, payload_len
  for Data; connection_id, group_id, packet_id for Ack.\<close>

datatype stream_fields =
    DataFields int int int
  | AckFields int int int

definition parse_bcudp_data :: "bytes \<Rightarrow> py_error + stream_fields option" where
  "parse_bcudp_data data =
     (if length data < 20 then Inr None
      else case struct_unpack_be_I (py_slice data 0 4) of
        Inl e \<Rightarrow> Inl e
      | Inr magic \<Rightarrow>
          if magic \<noteq> BCUDP_MAGIC_DATA then Inr None
          else Inr (Some (DataFields
                 (int_from_bytes_little_signed (py_slice data 4 8))
                 (int_from_bytes_little (py_slice data 12 16))
                 (int_from_bytes_little (py_slice data 16 20)))))"

definition parse_bcudp_ack :: "bytes \<Rightarrow> py_error + stream_fields option" where
  "parse_bcudp_ack data =
     (if length data < 28 then Inr None
      else case struct_unpack_be_I (py_slice data 0 4) of
        Inl e \<Rightarrow> Inl e
      | Inr magic \<Rightarrow>
          if magic \<noteq> BCUDP_MAGIC_ACK then Inr None
          else Inr (Some (AckFields
                 (int_from_bytes_little_signed (py_slice data 4 8))
                 (int_from_bytes_little (py_slice data 12 16))
                 (int_from_bytes_little (py_slice data 16 20)))))"

section \<open>The frame decoder\<close>

text \<open>\<open>str(b)\<close> for a byte and \<open>'.'.join\<close>, which render an address.\<close>

definition digit_char :: "nat \<Rightarrow> char" where
  "digit_char d = ''0123456789abcdef'' ! d"

definition str_of_byte :: "byte \<Rightarrow> string" where
  "str_of_byte b =
     (let n = unat b in
      if n < 10 then [digit_char n]
      else if n < 100 then [digit_char (n div 10), digit_char (n mod 10)]
      else [digit_char (n div 100), digit_char (n div 10 mod 10), digit_char (n mod 10)])"

fun join_dot :: "string list \<Rightarrow> string" where
  "join_dot [] = []"
| "join_dot [x] = x"
| "join_dot (x # y # rest) = x @ ''.'' @ join_dot (y # rest)"

text \<open>\<open>buf.hex()\<close>: two lower-case digits per byte.\<close>

definition bytes_hex :: "bytes \<Rightarrow> string" where
  "bytes_hex buf = concat (map (\<lambda>b. [digit_char (unat b div 16), digit_char (unat b mod 16)]) buf)"

text \<open>compare_pcaps.py, \<open>extract_udp_packet\<close>: the dictionary it returns, and the function.\<close>

record udp_packet =
  src_ip :: string
  dst_ip :: string
  src_port :: int
  dst_port :: int
  payload :: bytes

definition extract_udp_packet :: "bytes \<Rightarrow> py_error + udp_packet option" where
  "extract_udp_packet packet_data =
     (if length packet_data < 42 then Inr None
      else case py_index packet_data 14 of
        Inl e \<Rightarrow> Inl e
      | Inr version \<Rightarrow>
          if version \<noteq> 0x45 then Inr None
          else
            let ip_header = py_slice packet_data 14 34 in
            case py_index ip_header 9 of
              Inl e \<Rightarrow> Inl e
            | Inr protocol \<Rightarrow>
                if protocol \<noteq> 17 then Inr None
                else
                  let udp_header = py_slice packet_data 34 42 in
                  case struct_unpack_be_H (py_slice udp_header 0 2) of
                    Inl e \<Rightarrow> Inl e
                  | Inr sport \<Rightarrow>
                      (case struct_unpack_be_H (py_slice udp_header 2 4) of
                         Inl e \<Rightarrow> Inl e
                       | Inr dport \<Rightarrow>
                           (case struct_unpack_be_H (py_slice udp_header 4 6) of
                              Inl e \<Rightarrow> Inl e
                            | Inr udp_length \<Rightarrow>
                                Inr (Some \<lparr>
                                  src_ip = join_dot (map str_of_byte (py_slice ip_header 12 16)),
                                  dst_ip = join_dot (map str_of_byte (py_slice ip_header 16 20)),
                                  src_port = sport,
                                  dst_port = dport,
                                  payload = py_slice packet_data 42 (42 + udp_length - 8)\<rparr>))))"

text \<open>
  analyze_pcap.py, the body of the loop of \<open>analyze_pcap\<close> for one frame of the legacy
  format: what is appended to \<open>packets\<close>, if anything.  The entry keeps the packet
  number, the time stamp, the ports, the type and the first bytes of the payload.
\<close>

datatype packet_kind = KindDiscovery | KindAck | KindData

record legacy_packet =
  lg_num :: int
  lg_ts :: real
  lg_src_port :: int
  lg_dst_port :: int
  lg_type :: packet_kind
  lg_data :: bytes

definition analyze_pcap_frame :: "bytes \<Rightarrow> int \<Rightarrow> real \<Rightarrow> py_error + legacy_packet option" where
  "analyze_pcap_frame packet_data packet_num ts =
     (if 42 \<le> length packet_data then
        let ip_header = py_slice packet_data 14 34 in
        case py_index ip_header 0 of
          Inl e \<Rightarrow> Inl e
        | Inr version \<Rightarrow>
            if version = 0x45 then
              case py_index ip_header 9 of
                Inl e \<Rightarrow> Inl e
              | Inr protocol \<Rightarrow>
                  if protocol = 17 then
                    case struct_unpack_be_H (py_slice ip_header 20 22) of
                      Inl e \<Rightarrow> Inl e
                    | Inr sport \<Rightarrow>
                        (case struct_unpack_be_H (py_slice ip_header 22 24) of
                           Inl e \<Rightarrow> Inl e
                         | Inr dport \<Rightarrow>
                             let udp_data = drop 42 packet_data in
                             if 4 \<le> length udp_data then
                               let magic = py_slice udp_data 0 4 in
                               if magic = [0x3a, 0xcf, 0x87, 0x2a] then
                                 Inr (Some \<lparr>lg_num = packet_num, lg_ts = ts,
                                   lg_src_port = sport, lg_dst_port = dport,
                                   lg_type = KindDiscovery, lg_data = py_slice udp_data 0 100\<rparr>)
                               else if magic = [0x20, 0xcf, 0x87, 0x2a] then
                                 Inr (Some \<lparr>lg_num = packet_num, lg_ts = ts,
                                   lg_src_port = sport, lg_dst_port = dport,
                                   lg_type = KindAck, lg_data = py_slice udp_data 0 50\<rparr>)
                               else if magic = [0x10, 0xcf, 0x87, 0x2a] then
                                 Inr (Some \<lparr>lg_num = packet_num, lg_ts = ts,
                                   lg_src_port = sport, lg_dst_port = dport,
                                   lg_type = KindData, lg_data = py_slice udp_data 0 50\<rparr>)
                               else Inr None
                             else Inr None)
                  else Inr None
            else Inr None
      else Inr None)"

section \<open>The reader of the block-structured format\<close>

text \<open>
  The open file is the bytes not read yet; \<open>f.read(n)\<close> returns up to \<open>n\<close> of them
  and advances.  The warnings printed so far are kept beside it, each as the pair of
  the leading and the trailing length.
\<close>

record reader =
  stream :: bytes
  warnings :: "(int \<times> int) list"

definition f_read :: "nat \<Rightarrow> bytes \<Rightarrow> bytes \<times> bytes" where
  "f_read n s = (take n s, drop n s)"

text \<open>compare_pcaps.py, \<open>read_pcapng_block\<close>.\<close>

definition read_pcapng_block :: "reader \<Rightarrow> py_error + ((int \<times> bytes) option \<times> reader)" where
  "read_pcapng_block r =
     (let (block_type_data, s1) = f_read 4 (stream r) in
      if length block_type_data < 4 then Inr (None, r\<lparr>stream := s1\<rparr>)
      else case struct_unpack_le_I block_type_data of
        Inl e \<Rightarrow> Inl e
      | Inr block_type \<Rightarrow>
          let (block_length_data, s2) = f_read 4 s1 in
          if length block_length_data < 4 then Inr (None, r\<lparr>stream := s2\<rparr>)
          else case struct_unpack_le_I block_length_data of
            Inl e \<Rightarrow> Inl e
          | Inr block_length \<Rightarrow>
              if block_length < 12 then Inr (None, r\<lparr>stream := s2\<rparr>)
              else
                let (block_body, s3) = f_read (nat (block_length - 8)) s2 in
                if int (length block_body) < block_length - 8 then Inr (None, r\<lparr>stream := s3\<rparr>)
                else
                  let (trailing_length_data, s4) = f_read 4 s3 in
                  if length trailing_length_data < 4 then Inr (None, r\<lparr>stream := s4\<rparr>)
                  else case struct_unpack_le_I trailing_length_data of
                    Inl e \<Rightarrow> Inl e
                  | Inr trailing_length \<Rightarrow>
                      Inr (Some (block_type, block_body),
                           \<lparr>stream = s4,
                            warnings =
                              (if trailing_length \<noteq> block_length
                               then warnings r @ [(block_length, trailing_length)]
                               else warnings r)\<rparr>))"

text \<open>compare_pcaps.py, \<open>parse_enhanced_packet_block\<close>.\<close>

record epb =
  interface_id :: int
  timestamp :: int
  packet_data :: bytes

definition parse_enhanced_packet_block :: "bytes \<Rightarrow> py_error + epb option" where
  "parse_enhanced_packet_block block_body =
     (if length block_body < 16 then Inr None
      else case struct_unpack_le_I (py_slice block_body 0 4) of
        Inl e \<Rightarrow> Inl e
      | Inr iface \<Rightarrow>
          (case struct_unpack_le_I (py_slice block_body 4 8) of
             Inl e \<Rightarrow> Inl e
           | Inr timestamp_high \<Rightarrow>
               (case struct_unpack_le_I (py_slice block_body 8 12) of
                  Inl e \<Rightarrow> Inl e
                | Inr timestamp_low \<Rightarrow>
                    (case struct_unpack_le_I (py_slice block_body 12 16) of
                       Inl e \<Rightarrow> Inl e
                     | Inr captured_len \<Rightarrow>
                         Inr (Some \<lparr>
                           interface_id = iface,
                           timestamp = push_bit 32 timestamp_high OR timestamp_low,
                           packet_data = py_slice block_body 16 (16 + captured_len)\<rparr>)))))"

text \<open>compare_pcaps.py, \<open>analyze_pcapng\<close>: the entry appended for a decoded packet, the
  body of the loop for one block, the loop, and the function.\<close>

record pcapng_packet =
  ng_num :: int
  ng_timestamp :: int
  ng_udp :: udp_packet
  ng_bcudp :: "bytes bcudp_packet"
  ng_raw_payload :: string

definition analyze_block ::
  "int \<times> bytes \<Rightarrow> pcapng_packet list \<Rightarrow> int \<Rightarrow> py_error + (pcapng_packet list \<times> int)" where
  "analyze_block block packets packet_num =
     (if fst block = 6 then
        case parse_enhanced_packet_block (snd block) of
          Inl e \<Rightarrow> Inl e
        | Inr None \<Rightarrow> Inr (packets, packet_num)
        | Inr (Some e) \<Rightarrow>
            (case extract_udp_packet (packet_data e) of
               Inl x \<Rightarrow> Inl x
             | Inr None \<Rightarrow> Inr (packets, packet_num)
             | Inr (Some udp_pkt) \<Rightarrow>
                 (case parse_bcudp_packet_pcaps (payload udp_pkt) of
                    Inl x \<Rightarrow> Inl x
                  | Inr None \<Rightarrow> Inr (packets, packet_num)
                  | Inr (Some bcudp_pkt) \<Rightarrow>
                      Inr (packets @ [\<lparr>ng_num = packet_num, ng_timestamp = timestamp e,
                             ng_udp = udp_pkt, ng_bcudp = bcudp_pkt,
                             ng_raw_payload = py_slice (bytes_hex (payload udp_pkt)) 0 100\<rparr>],
                           packet_num + 1)))
      else Inr (packets, packet_num))"

lemma read_pcapng_block_consumes:
  assumes "read_pcapng_block r = Inr (Some block, r')"
  shows "length (stream r') < length (stream r)"
  using assms
  by (auto simp: read_pcapng_block_def f_read_def Let_def struct_unpack_le_I_def
           split: if_splits sum.splits)

function analyze_pcapng_loop ::
  "reader \<Rightarrow> pcapng_packet list \<Rightarrow> int \<Rightarrow> py_error + (pcapng_packet list \<times> reader)" where
  "analyze_pcapng_loop r packets packet_num =
     (case read_pcapng_block r of
        Inl e \<Rightarrow> Inl e
      | Inr (None, r') \<Rightarrow> Inr (packets, r')
      | Inr (Some block, r') \<Rightarrow>
          (case analyze_block block packets packet_num of
             Inl e \<Rightarrow> Inl e
           | Inr (packets', packet_num') \<Rightarrow> analyze_pcapng_loop r' packets' packet_num'))"
  by pat_completeness auto
termination
  by (relation "measure (\<lambda>(r, packets, packet_num). length (stream r))")
     (auto dest: read_pcapng_block_consumes)

definition analyze_pcapng :: "bytes \<Rightarrow> py_error + (pcapng_packet list \<times> (int \<times> int) list)" where
  "analyze_pcapng file =
     (case read_pcapng_block \<lparr>stream = file, warnings = []\<rparr> of
        Inl e \<Rightarrow> Inl e
      | Inr (None, r) \<Rightarrow> Inr ([], warnings r)
      | Inr (Some first_block, r) \<Rightarrow>
          if fst first_block \<noteq> 0x0A0D0D0A then Inr ([], warnings r)
          else case analyze_pcapng_loop r [] 0 of
            Inl e \<Rightarrow> Inl e
          | Inr (packets, r') \<Rightarrow> Inr (packets, warnings r'))"

section \<open>The flow analyzer and the comparator\<close>

text \<open>
  compare_stream_flow.py.  An entry of the JSON export, with the fields the script
  reads from it (numbers already converted; \<open>udp_layer\<close> is \<open>None\<close> when the entry has
  no UDP layer, and holds the two ports and the payload text otherwise), and the
  dictionary \<open>extract_stream_packets\<close> appends for a decoded packet.
\<close>

record json_entry =
  frame_number :: int
  time_relative :: real
  ip_src :: string
  udp_layer :: "(int \<times> int \<times> string) option"

record stream_packet =
  sp_frame_num :: int
  sp_time :: real
  sp_src_ip :: string
  sp_src_port :: int
  sp_dst_port :: int
  sp_fields :: stream_fields

text \<open>The body of the loop of \<open>extract_stream_packets\<close> for one entry: the packet
  appended, if any.\<close>

definition extract_stream_entry :: "json_entry \<Rightarrow> py_error + stream_packet option" where
  "extract_stream_entry entry =
     (case udp_layer entry of
        None \<Rightarrow> Inr None
      | Some (sport, dport, payload_hex) \<Rightarrow>
          if payload_hex = [] then Inr None
          else
            let bytes_data = hex_to_bytes payload_hex in
            if length bytes_data < 4 then Inr None
            else case parse_bcudp_data bytes_data of
              Inl e \<Rightarrow> Inl e
            | Inr (Some pkt_data) \<Rightarrow>
                Inr (Some \<lparr>sp_frame_num = frame_number entry, sp_time = time_relative entry,
                  sp_src_ip = ip_src entry, sp_src_port = sport, sp_dst_port = dport,
                  sp_fields = pkt_data\<rparr>)
            | Inr None \<Rightarrow>
                (case parse_bcudp_ack bytes_data of
                   Inl e \<Rightarrow> Inl e
                 | Inr (Some pkt_ack) \<Rightarrow>
                     Inr (Some \<lparr>sp_frame_num = frame_number entry, sp_time = time_relative entry,
                       sp_src_ip = ip_src entry, sp_src_port = sport, sp_dst_port = dport,
                       sp_fields = pkt_ack\<rparr>)
                 | Inr None \<Rightarrow> Inr None))"

fun extract_stream_packets :: "json_entry list \<Rightarrow> py_error + stream_packet list" where
  "extract_stream_packets [] = Inr []"
| "extract_stream_packets (entry # entries) =
     (case extract_stream_entry entry of
        Inl e \<Rightarrow> Inl e
      | Inr r \<Rightarrow>
          (case extract_stream_packets entries of
             Inl e \<Rightarrow> Inl e
           | Inr packets \<Rightarrow> Inr (case r of None \<Rightarrow> packets | Some p \<Rightarrow> p # packets)))"

text \<open>The tests \<open>p['type'] == 'data'\<close>, \<open>p['type'] == 'ack'\<close> and
  \<open>'192.168' in p['src_ip']\<close>, and the key \<open>'packet_id'\<close>.\<close>

definition is_data :: "stream_packet \<Rightarrow> bool" where
  "is_data p = (case sp_fields p of DataFields c i l \<Rightarrow> True | AckFields c g i \<Rightarrow> False)"

definition is_ack :: "stream_packet \<Rightarrow> bool" where
  "is_ack p = (case sp_fields p of DataFields c i l \<Rightarrow> False | AckFields c g i \<Rightarrow> True)"

definition from_camera :: "stream_packet \<Rightarrow> bool" where
  "from_camera p = str_contains ''192.168'' (sp_src_ip p)"

definition packet_id :: "stream_packet \<Rightarrow> int" where
  "packet_id p = (case sp_fields p of DataFields c i l \<Rightarrow> i | AckFields c g i \<Rightarrow> i)"

text \<open>
  \<open>analyze_stream_flow\<close>, the gap check: the loop over \<open>range(len(pids) - 1)\<close> on the
  sorted ids, collecting \<open>(pids[i], pids[i+1], gap)\<close>, and the lines printed for the
  first ten gaps, each with \<open>start+1\<close>, \<open>end-1\<close> and \<open>gap-1\<close>.
\<close>

definition gaps_of_sorted :: "int list \<Rightarrow> (int \<times> int \<times> int) list" where
  "gaps_of_sorted pids =
     concat (map (\<lambda>i. let gap = pids ! (i + 1) - pids ! i in
                       if gap > 1 then [(pids ! i, pids ! (i + 1), gap)] else [])
              [0 ..< length pids - 1])"

definition find_gaps :: "int list \<Rightarrow> (int \<times> int \<times> int) list" where
  "find_gaps ids = gaps_of_sorted (sort ids)"


definition printed_gaps :: "(int \<times> int \<times> int) list \<Rightarrow> (int \<times> int \<times> int) list" where
  "printed_gaps gaps = map (\<lambda>(start, stop, gap). (start + 1, stop - 1, gap - 1)) (take 10 gaps)"

text \<open>
  \<open>analyze_stream_flow\<close>, the rate of a group: nothing is printed for a group of at
  most one packet.  Time stamps are Python floats, taken here as real numbers.
\<close>

definition packet_rate :: "stream_packet list \<Rightarrow> real option" where
  "packet_rate grp =
     (if length grp > 1 then
        let duration = sp_time (last grp) - sp_time (hd grp) in
        Some (if duration > 0 then real (length grp) / duration else 0)
      else None)"

record camera_report =
  cam_duration :: real
  cam_gaps :: "(int \<times> int \<times> int) list"
  cam_printed_gaps :: "(int \<times> int \<times> int) list"
  cam_rate :: "real option"

record flow_report =
  n_data :: nat
  n_ack :: nat
  n_camera_data :: nat
  n_client_data :: nat
  n_camera_ack :: nat
  n_client_ack :: nat
  camera :: "camera_report option"
  client_ack_rate :: "real option"

definition analyze_stream_flow :: "stream_packet list \<Rightarrow> flow_report option" where
  "analyze_stream_flow packets =
     (let data_packets = filter is_data packets;
          ack_packets = filter is_ack packets in
      if data_packets = [] then None
      else
        let camera_data = filter from_camera data_packets;
            client_data = filter (\<lambda>p. \<not> from_camera p) data_packets;
            camera_ack = filter from_camera ack_packets;
            client_ack = filter (\<lambda>p. \<not> from_camera p) ack_packets in
        Some \<lparr>
          n_data = length data_packets,
          n_ack = length ack_packets,
          n_camera_data = length camera_data,
          n_client_data = length client_data,
          n_camera_ack = length camera_ack,
          n_client_ack = length client_ack,
          camera =
            (if camera_data \<noteq> [] then
               let gaps = find_gaps (map packet_id camera_data) in
               Some \<lparr>cam_duration = sp_time (last camera_data) - sp_time (hd camera_data),
                     cam_gaps = gaps,
                     cam_printed_gaps = printed_gaps gaps,
                     cam_rate = packet_rate camera_data\<rparr>
             else None),
          client_ack_rate = packet_rate client_ack\<rparr>)"




section \<open>Readings of the wire layout\<close>


text \<open>The 16-bit big-endian field at offset \<open>k\<close>: most significant byte first.\<close>

definition be16_at :: "bytes \<Rightarrow> nat \<Rightarrow> int" where
  "be16_at f k = 256 * uint (f ! k) + uint (f ! (k + 1))"



text \<open>
  Sample inputs.  A 20-byte Data payload with connection_id -2, packet_id 261 and
  payload_len 7, after the four bytes of a magic; and an Ethernet/IPv4/UDP frame from
  192.168.1.10:5000 to 10.0.0.2:10000 with the given version byte, protocol byte and
  bytes after the UDP header, whose length field is 11.
\<close>

definition sample_data :: "bytes \<Rightarrow> bytes" where
  "sample_data magic = magic @ [0xfe, 0xff, 0xff, 0xff, 0, 0, 0, 0, 5, 1, 0, 0, 7, 0, 0, 0]"

definition sample_frame :: "byte \<Rightarrow> byte \<Rightarrow> bytes \<Rightarrow> bytes" where
  "sample_frame version protocol rest =
     [0, 0, 0, 0, 0, 0, 0, 0, 0, 0, 0, 0, 8, 0] @
     [version, 0, 0, 32, 0, 0, 0, 0, 64, protocol, 0, 0, 192, 168, 1, 10, 10, 0, 0, 2] @
     [0x13, 0x88, 0x27, 0x10, 0, 11, 0, 0] @ rest"

section \<open>Slices and integer readings\<close>

lemma py_slice_nonneg:
  "0 \<le> i \<Longrightarrow> 0 \<le> j \<Longrightarrow> py_slice xs i j = take (nat j - nat i) (drop (nat i) xs)"
  by (cases "nat i < length xs"; cases "nat j \<le> length xs")
     (auto simp: py_slice_def slice_bound_def min_def)












lemma be_int4: "be_int [a, b, c, d] = le_int [d, c, b, a]"
  by (simp add: be_int_def)

lemma take2_drop:
  assumes "k + 2 \<le> length p"
  shows "take 2 (drop k p) = [p ! k, p ! (k + 1)]"
proof -
  have "take (Suc (Suc 0)) (drop k p) = [p ! k, p ! (k + 1)]"
    using assms by (simp add: take_Suc_conv_app_nth)
  then show ?thesis by (simp add: numeral_eq_Suc)
qed

lemma ip_header_slice:
  assumes "42 \<le> length f"
  shows "py_slice f 14 34 = take 20 (drop 14 f)"
    and "length (py_slice f 14 34) = 20"
    and "i < 20 \<Longrightarrow> py_slice f 14 34 ! i = f ! (14 + i)"
  using assms by (simp_all add: py_slice_nonneg)

lemma udp_header_slice:
  assumes "42 \<le> length f"
  shows "length (py_slice f 34 42) = 8"
    and "i < 8 \<Longrightarrow> py_slice f 34 42 ! i = f ! (34 + i)"
  using assms by (simp_all add: py_slice_nonneg)

lemma unpack_be_H_at:
  assumes "0 \<le> i" and "j = i + 2" and "nat i + 2 \<le> length p"
  shows "struct_unpack_be_H (py_slice p i j) = Inr (be16_at p (nat i))"
proof -
  have "nat j - nat i = 2" using assms by simp
  then have "py_slice p i j = [p ! nat i, p ! (nat i + 1)]"
    using assms by (simp add: py_slice_nonneg take2_drop)
  then show ?thesis by (simp add: struct_unpack_be_H_def be_int_def be16_at_def)
qed

lemma legacy_ports_slice_empty: "42 \<le> length f \<Longrightarrow> py_slice (py_slice f 14 34) 20 22 = []"
  by (simp add: py_slice_nonneg)

lemma ip_slices:
  assumes "42 \<le> length f"
  shows "py_slice (py_slice f 14 34) 12 16 = take 4 (drop 26 f)"
    and "py_slice (py_slice f 14 34) 16 20 = take 4 (drop 30 f)"
  using assms by (simp_all add: py_slice_nonneg take_drop min_def)

lemma udp_slices:
  assumes "42 \<le> length f"
  shows "struct_unpack_be_H (py_slice (py_slice f 34 42) 0 2) = Inr (be16_at f 34)"
    and "struct_unpack_be_H (py_slice (py_slice f 34 42) 2 4) = Inr (be16_at f 36)"
    and "struct_unpack_be_H (py_slice (py_slice f 34 42) 4 6) = Inr (be16_at f 38)"
  using assms udp_header_slice [OF assms]
  by (simp_all add: unpack_be_H_at be16_at_def)

lemma be16_at_nonneg: "0 \<le> be16_at f k"
  by (simp add: be16_at_def)

lemma payload_slice:
  "py_slice f 42 (42 + be16_at f 38 - 8) = take (nat (be16_at f 38 - 8)) (drop 42 f)"
proof -
  have "nat (42 + be16_at f 38 - 8) - nat 42 = nat (be16_at f 38 - 8)"
    using be16_at_nonneg [of f 38] by simp
  then show ?thesis
    using be16_at_nonneg [of f 38] by (simp add: py_slice_nonneg)
qed

section \<open>The stages never raise\<close>






section \<open>Properties of the BCUDP decoders\<close>

text \<open>
  Claim C1.  The decoder of the JSON path reads the magic most significant byte first,
  the decoder of the binary path least significant byte first, both against the same
  constants.  On the wire bytes \<open>3a cf 87 2a\<close>, which the hex text \<open>3a:cf:87:2a\<close>
  converts to, the JSON path returns a Discovery packet and the binary path returns
  nothing; on the reversed bytes \<open>2a 87 cf 3a\<close> it is the other way round.  The two
  paths do not decode the same bytes to the same packet.
\<close>

theorem magic_byte_order_differs:
  "hex_to_bytes ''3a:cf:87:2a'' = [0x3a, 0xcf, 0x87, 0x2a]
   \<and> parse_bcudp_packet_json ''3a:cf:87:2a'' =
       Some (Discovery BCUDP_MAGIC_DISCOVERY ''3a:cf:87:2a'')
   \<and> parse_bcudp_packet_pcaps [0x3a, 0xcf, 0x87, 0x2a] = Inr None
   \<and> hex_to_bytes ''2a:87:cf:3a'' = [0x2a, 0x87, 0xcf, 0x3a]
   \<and> parse_bcudp_packet_json ''2a:87:cf:3a'' = None
   \<and> parse_bcudp_packet_pcaps [0x2a, 0x87, 0xcf, 0x3a] =
       Inr (Some (Discovery BCUDP_MAGIC_DISCOVERY [0x2a, 0x87, 0xcf, 0x3a]))"
  by (simp add: parse_bcudp_packet_json_def parse_bcudp_packet_json_body_def
        parse_bcudp_packet_pcaps_def hex_to_bytes_def str_remove_def hex_digit_def is_space_def
        py_slice_nonneg struct_unpack_le_I_def struct_unpack_be_I_def be_int4
        BCUDP_MAGIC_DATA_def BCUDP_MAGIC_DISCOVERY_def BCUDP_MAGIC_ACK_def)



text \<open>
  Claim C4.  A payload shorter than the minimum of its variant is undecodable: the
  decoders return \<open>None\<close> and raise nothing.  Below 4 bytes no magic can match; with
  the Data magic the minimum is 20 bytes, with the Ack magic 28.  Every read of the
  decoders is a slice (clamped to the buffer) followed by an unpacking that raises on a
  short slice, so that the result \<open>Inr None\<close> excludes any read past the end.
\<close>

theorem short_payload_undecodable:
  "(length p < 4 \<longrightarrow> parse_bcudp_packet_pcaps p = Inr None)
   \<and> (struct_unpack_le_I (py_slice p 0 4) = Inr BCUDP_MAGIC_DATA \<and> length p < 20
        \<longrightarrow> parse_bcudp_packet_pcaps p = Inr None)
   \<and> (struct_unpack_le_I (py_slice p 0 4) = Inr BCUDP_MAGIC_ACK \<and> length p < 28
        \<longrightarrow> parse_bcudp_packet_pcaps p = Inr None)
   \<and> (length p < 20 \<longrightarrow> parse_bcudp_data p = Inr None)
   \<and> (length p < 28 \<longrightarrow> parse_bcudp_ack p = Inr None)"
  by (simp add: parse_bcudp_packet_pcaps_def parse_bcudp_data_def parse_bcudp_ack_def
        BCUDP_MAGIC_DATA_def BCUDP_MAGIC_DISCOVERY_def BCUDP_MAGIC_ACK_def)

theorem short_payload_undecodable_witness:
  "parse_bcudp_packet_pcaps [0x2a, 0x87, 0xcf] = Inr None
   \<and> parse_bcudp_packet_pcaps (take 19 (sample_data [0x2a, 0x87, 0xcf, 0x10])) = Inr None
   \<and> parse_bcudp_packet_pcaps (sample_data [0x2a, 0x87, 0xcf, 0x20] @ [0, 0, 0, 0, 0, 0, 0]) =
       Inr None
   \<and> parse_bcudp_data (take 19 (sample_data [0x10, 0xcf, 0x87, 0x2a])) = Inr None
   \<and> parse_bcudp_ack (sample_data [0x20, 0xcf, 0x87, 0x2a] @ [0, 0, 0, 0, 0, 0, 0]) = Inr None"
  using short_payload_undecodable [of "[0x2a, 0x87, 0xcf]"]
    short_payload_undecodable [of "take 19 (sample_data [0x2a, 0x87, 0xcf, 0x10])"]
    short_payload_undecodable [of "sample_data [0x2a, 0x87, 0xcf, 0x20] @ [0, 0, 0, 0, 0, 0, 0]"]
    short_payload_undecodable [of "take 19 (sample_data [0x10, 0xcf, 0x87, 0x2a])"]
    short_payload_undecodable [of "sample_data [0x20, 0xcf, 0x87, 0x2a] @ [0, 0, 0, 0, 0, 0, 0]"]
  by (simp add: sample_data_def py_slice_nonneg struct_unpack_le_I_def BCUDP_MAGIC_DATA_def
        BCUDP_MAGIC_ACK_def)

section \<open>Properties of the frame decoders\<close>

text \<open>
  Claim C3.  In the loop of \<open>analyze_pcap\<close> (the legacy format), a frame that passes
  the length, IPv4 and UDP checks never yields its ports: the ports are unpacked from
  \<open>ip_header[20:22]\<close> and \<open>ip_header[22:24]\<close>, slices of the 20-byte IP header that
  are empty, so \<open>struct.unpack\<close> raises and nothing catches it.  Every other frame is
  skipped.  The stage therefore raises exactly on the frames the claim is about.
\<close>

theorem analyze_pcap_frame_raises:
  "analyze_pcap_frame f n ts =
     (if 42 \<le> length f \<and> f ! 14 = 0x45 \<and> f ! 23 = 17 then Inl StructError else Inr None)"
proof (cases "42 \<le> length f")
  case False
  then show ?thesis by (simp add: analyze_pcap_frame_def)
next
  case True
  note s = ip_header_slice [OF True]
  have i0: "py_index (py_slice f 14 34) 0 = Inr (f ! 14)"
    using s(3) [of 0] by (simp add: py_index_def s(2))
  have i9: "py_index (py_slice f 14 34) 9 = Inr (f ! 23)"
    using s(3) [of 9] by (simp add: py_index_def s(2))
  have e: "struct_unpack_be_H (py_slice (py_slice f 14 34) 20 22) = Inl StructError"
    by (simp add: legacy_ports_slice_empty [OF True] struct_unpack_be_H_def)
  show ?thesis
    using True by (simp add: analyze_pcap_frame_def Let_def i0 i9 e)
qed

theorem analyze_pcap_frame_raises_witness:
  "analyze_pcap_frame (sample_frame 0x45 17 [0x3a, 0xcf, 0x87, 0x2a]) 0 0 = Inl StructError"
  by (simp add: analyze_pcap_frame_raises sample_frame_def)

text \<open>
  Claim C8.  \<open>extract_udp_packet\<close> returns \<open>None\<close>, and raises nothing, for a frame
  shorter than 42 bytes, for a frame whose byte 14 is not 0x45, and for a frame whose
  protocol byte (offset 23) is not 17.  Any other frame yields a datagram whose ports
  are the big-endian 16-bit fields at offsets 34 and 36 and whose payload is the
  \<open>udp_length - 8\<close> bytes after the 8-byte UDP header, \<open>udp_length\<close> being the
  big-endian field at offset 38 (the slice ends with the frame when it is shorter).
\<close>

theorem extract_udp_packet_checks:
  "extract_udp_packet f =
     (if length f < 42 \<or> f ! 14 \<noteq> 0x45 \<or> f ! 23 \<noteq> 17 then Inr None
      else Inr (Some \<lparr>
        src_ip = join_dot (map str_of_byte (take 4 (drop 26 f))),
        dst_ip = join_dot (map str_of_byte (take 4 (drop 30 f))),
        src_port = be16_at f 34,
        dst_port = be16_at f 36,
        payload = take (nat (be16_at f 38 - 8)) (drop 42 f)\<rparr>))"
proof (cases "42 \<le> length f")
  case False
  then show ?thesis by (simp add: extract_udp_packet_def)
next
  case True
  note s = ip_header_slice [OF True]
  have i14: "py_index f 14 = Inr (f ! 14)"
    using True by (simp add: py_index_def)
  have i9: "py_index (py_slice f 14 34) 9 = Inr (f ! 23)"
    using s(3) [of 9] by (simp add: py_index_def s(2))
  show ?thesis
    using True
    by (simp add: extract_udp_packet_def Let_def i14 i9 ip_slices [OF True] udp_slices [OF True]
          payload_slice [simplified])
qed

theorem extract_udp_packet_checks_witness:
  "extract_udp_packet [0, 0, 0] = Inr None
   \<and> extract_udp_packet (sample_frame 0x60 17 [0x3a, 0xcf, 0x87]) = Inr None
   \<and> extract_udp_packet (sample_frame 0x45 6 [0x3a, 0xcf, 0x87]) = Inr None
   \<and> extract_udp_packet (sample_frame 0x45 17 [0x3a, 0xcf, 0x87, 0x2a, 0x55]) =
     Inr (Some \<lparr>src_ip = ''192.168.1.10'', dst_ip = ''10.0.0.2'',
       src_port = 5000, dst_port = 10000, payload = [0x3a, 0xcf, 0x87]\<rparr>)"
  using extract_udp_packet_checks [of "[0, 0, 0]"]
    extract_udp_packet_checks [of "sample_frame 0x60 17 [0x3a, 0xcf, 0x87]"]
    extract_udp_packet_checks [of "sample_frame 0x45 6 [0x3a, 0xcf, 0x87]"]
    extract_udp_packet_checks [of "sample_frame 0x45 17 [0x3a, 0xcf, 0x87, 0x2a, 0x55]"]
  by (simp add: sample_frame_def be16_at_def str_of_byte_def digit_char_def)

section \<open>Properties of the block reader\<close>



section \<open>Properties of the JSON input path\<close>

text \<open>
  Claim C10.  When \<open>bytes.fromhex\<close> rejects the payload text (after the removal of
  \<open>:\<close> and of spaces), \<open>hex_to_bytes\<close> returns the empty byte string; the entry is
  then dropped by the test \<open>len(bytes_data) < 4\<close> of \<open>extract_stream_packets\<close>, which
  goes on as if the entry were not there, and \<open>parse_bcudp_packet\<close> of
  analyze_json.py returns \<open>None\<close>.  Neither a packet nor an error results.
\<close>

theorem malformed_hex_skipped:
  assumes "bytes_fromhex (str_remove (CHR '' '') (str_remove (CHR '':'') payload_hex)) = Inl err"
  shows "hex_to_bytes payload_hex = []
       \<and> extract_stream_entry (entry\<lparr>udp_layer := Some (sport, dport, payload_hex)\<rparr>) = Inr None
       \<and> extract_stream_packets (entry\<lparr>udp_layer := Some (sport, dport, payload_hex)\<rparr> # entries) =
           extract_stream_packets entries
       \<and> parse_bcudp_packet_json payload_hex = None"
    (is "?empty \<and> ?entry \<and> ?loop \<and> ?json")
proof -
  have h: ?empty
    using assms by (simp add: hex_to_bytes_def)
  have e: ?entry
    by (simp add: extract_stream_entry_def h)
  have l: ?loop
    by (cases "extract_stream_packets entries") (simp_all add: e)
  have j: ?json
    by (simp add: parse_bcudp_packet_json_def parse_bcudp_packet_json_body_def h)
  from h e l j show ?thesis by blast
qed

theorem malformed_hex_skipped_witness:
  "bytes_fromhex (str_remove (CHR '' '') (str_remove (CHR '':'') ''10:cf:87:2g'')) = Inl ValueError
   \<and> hex_to_bytes ''10:cf:87:2g'' = []
   \<and> extract_stream_entry
        \<lparr>frame_number = 1, time_relative = 0, ip_src = ''192.168.1.10'',
         udp_layer = Some (5000, 10000, ''10:cf:87:2g'')\<rparr> = Inr None
   \<and> parse_bcudp_packet_json ''10:cf:87:2g'' = None"
proof -
  have a: "bytes_fromhex (str_remove (CHR '' '') (str_remove (CHR '':'') ''10:cf:87:2g'')) =
             Inl ValueError"
    by (simp add: str_remove_def hex_digit_def is_space_def)
  show ?thesis
    using a malformed_hex_skipped [OF a,
      where entry = "\<lparr>frame_number = 1, time_relative = 0, ip_src = ''192.168.1.10'',
                       udp_layer = None\<rparr>"
        and sport = 5000 and dport = 10000 and entries = "[]"]
    by simp
qed

section \<open>Properties of the flow analyzer and the comparator\<close>










lemma analyze_stream_flow_gaps:
  assumes "analyze_stream_flow packets = Some rep" and "camera rep = Some c"
  shows "cam_gaps c = find_gaps (map packet_id (filter from_camera (filter is_data packets)))"
    and "cam_printed_gaps c = printed_gaps (cam_gaps c)"
    and "cam_rate c = packet_rate (filter from_camera (filter is_data packets))"
  using assms by (auto simp: analyze_stream_flow_def Let_def split: if_splits)








end
